theory Spec2Isabelle
  imports Complex_Main "HOL-Library.Word"
begin

unbundle bit_operations_syntax

text \<open>
  A model of the live interview client: the \<^verbatim>\<open>App\<close> component of the web client
  (\<^verbatim>\<open>src/unnamed/part_002\<close>), with its codec functions, its transcript list, its message
  dispatcher, its playback scheduling and its connection life cycle. The file
  \<^verbatim>\<open>src/webclient/src/use-webrtc.ts\<close> carries an older copy of the same component after
  the hook it is named for; the codec, \<open>extractTranscriptText\<close>, \<open>playAssistantAudio\<close>,
  \<open>connect\<close>, \<open>disconnect\<close> and the channel callbacks are the same in both, while the
  older copy has another \<open>appendTranscript\<close>, no derived transcript list, and no
  \<^verbatim>\<open>context_ack\<close> and \<^verbatim>\<open>session_expired\<close> cases in its dispatcher. Line numbers below are
  those of \<^verbatim>\<open>src/unnamed/part_002\<close>.
\<close>

section \<open>Values on the wire\<close>

text \<open>
  The client parses every inbound message with \<^verbatim>\<open>JSON.parse\<close> and then inspects the
  result with \<^verbatim>\<open>typeof\<close> tests. A parsed value is a \<open>json\<close>; a property that is
  absent reads as \<^verbatim>\<open>undefined\<close>, which is \<open>None\<close> in \<open>json option\<close>. An object is the
  list of its own properties in enumeration order (keys distinct after parsing). The
  numeric fields of the protocol (sample rates, warning counters) are integers, so a
  number is an \<open>int\<close>.
\<close>

datatype json =
    JNull
  | JBool bool
  | JNum int
  | JStr string
  | JArr "json list"
  | JObj "(string \<times> json) list"

type_synonym jsval = "json option"

text \<open>Property access \<^verbatim>\<open>v.k\<close> on a value that is not \<^verbatim>\<open>null\<close> or \<^verbatim>\<open>undefined\<close>.\<close>

fun getprop :: "jsval \<Rightarrow> string \<Rightarrow> jsval" where
  "getprop (Some (JObj kvs)) k = map_of kvs k"
| "getprop _ k = None"

text \<open>\<^verbatim>\<open>typeof v === "string"\<close>, \<^verbatim>\<open>typeof v === "number"\<close>, \<^verbatim>\<open>Array.isArray(v)\<close>, each
  returning the value it recognised.\<close>

fun typeof_string :: "jsval \<Rightarrow> string option" where
  "typeof_string (Some (JStr s)) = Some s"
| "typeof_string _ = None"

fun typeof_number :: "jsval \<Rightarrow> int option" where
  "typeof_number (Some (JNum n)) = Some n"
| "typeof_number _ = None"

fun isArray :: "jsval \<Rightarrow> json list option" where
  "isArray (Some (JArr xs)) = Some xs"
| "isArray _ = None"

text \<open>\<^verbatim>\<open>typeof v === "object"\<close> (true of \<^verbatim>\<open>null\<close> as well).\<close>

fun typeof_object :: "jsval \<Rightarrow> bool" where
  "typeof_object (Some JNull) = True"
| "typeof_object (Some (JArr xs)) = True"
| "typeof_object (Some (JObj kvs)) = True"
| "typeof_object _ = False"

text \<open>Truthiness: \<^verbatim>\<open>undefined\<close>, \<^verbatim>\<open>null\<close>, \<^verbatim>\<open>false\<close>, \<^verbatim>\<open>0\<close> and \<^verbatim>\<open>""\<close> are falsy.\<close>

fun truthy :: "jsval \<Rightarrow> bool" where
  "truthy None = False"
| "truthy (Some JNull) = False"
| "truthy (Some (JBool b)) = b"
| "truthy (Some (JNum n)) = (n \<noteq> 0)"
| "truthy (Some (JStr s)) = (s \<noteq> [])"
| "truthy (Some (JArr xs)) = True"
| "truthy (Some (JObj kvs)) = True"

subsection \<open>Strings\<close>

text \<open>White space as \<^verbatim>\<open>String.prototype.trim\<close> sees it, for code units below 256.\<close>

definition WhiteSpace :: "char \<Rightarrow> bool" where
  "WhiteSpace c = (of_char c \<in> {9, 10, 11, 12, 13, 32, 160 :: nat})"

definition trim :: "string \<Rightarrow> string" where
  "trim s = rev (dropWhile WhiteSpace (rev (dropWhile WhiteSpace s)))"

text \<open>\<^verbatim>\<open>Array.prototype.join\<close> on an array of strings.\<close>

fun join :: "string \<Rightarrow> string list \<Rightarrow> string" where
  "join sep [] = []"
| "join sep [x] = x"
| "join sep (x # y # ys) = x @ sep @ join sep (y # ys)"

fun digits :: "nat \<Rightarrow> string" where
  "digits n = (if n < 10 then [char_of (48 + n)] else digits (n div 10) @ [char_of (48 + n mod 10)])"

declare digits.simps [simp del]

text \<open>
  Conversion of an integer number to a string, as a template literal and
  \<^verbatim>\<open>JSON.stringify\<close> do it for numbers below \<open>10^21\<close> in absolute value: the decimal
  digits. From there on JavaScript prints an exponent form, which is not modelled; the
  numbers of the protocol are sample rates and counters.
\<close>

definition Number_toString :: "int \<Rightarrow> string" where
  "Number_toString n = (if n < 0 then CHR ''-'' # digits (nat (- n)) else digits (nat n))"

definition hex_digit :: "nat \<Rightarrow> char" where
  "hex_digit d = (if d < 10 then char_of (48 + d) else char_of (87 + d))"

definition QuoteJSONString :: "string \<Rightarrow> string" where
  "QuoteJSONString s =
     [CHR 0x22] @
     concat (map (\<lambda>c.
        if c = CHR 0x22 then [CHR 0x5C, CHR 0x22]
        else if c = CHR 0x5C then [CHR 0x5C, CHR 0x5C]
        else if c = CHR 0x08 then [CHR 0x5C, CHR ''b'']
        else if c = CHR 0x0C then [CHR 0x5C, CHR ''f'']
        else if c = CHR 0x0A then [CHR 0x5C, CHR ''n'']
        else if c = CHR 0x0D then [CHR 0x5C, CHR ''r'']
        else if c = CHR 0x09 then [CHR 0x5C, CHR ''t'']
        else if (of_char c :: nat) < 32
          then [CHR 0x5C, CHR ''u'', CHR ''0'', CHR ''0'',
                hex_digit (of_char c div 16), hex_digit (of_char c mod 16)]
        else [c]) s) @
     [CHR 0x22]"

text \<open>\<^verbatim>\<open>JSON.stringify\<close> of a parsed value.\<close>

fun JSON_stringify :: "json \<Rightarrow> string" where
  "JSON_stringify JNull = ''null''"
| "JSON_stringify (JBool b) = (if b then ''true'' else ''false'')"
| "JSON_stringify (JNum n) = Number_toString n"
| "JSON_stringify (JStr s) = QuoteJSONString s"
| "JSON_stringify (JArr xs) = ''['' @ join '','' (map JSON_stringify xs) @ '']''"
| "JSON_stringify (JObj kvs) =
     ''{'' @ join '','' (map (\<lambda>(k, v). QuoteJSONString k @ '':'' @ JSON_stringify v) kvs) @ ''}''"

text \<open>\<^verbatim>\<open>String(v)\<close> of a parsed value.\<close>

fun String_js :: "json \<Rightarrow> string" where
  "String_js JNull = ''null''"
| "String_js (JBool b) = (if b then ''true'' else ''false'')"
| "String_js (JNum n) = Number_toString n"
| "String_js (JStr s) = s"
| "String_js (JArr xs) = join '','' (map (\<lambda>x. if x = JNull then [] else String_js x) xs)"
| "String_js (JObj kvs) = ''[object Object]''"

section \<open>Codec\<close>

text \<open>
  \<open>floatTo16BitPCM\<close> (lines 207-214) and \<open>int16ToFloat32\<close> (lines 216-222). Samples
  and times are real numbers where the code computes in floating point. Storing a number
  into an \<^verbatim>\<open>Int16Array\<close> truncates it towards zero and keeps the low 16 bits.
\<close>

definition ToInt16 :: "real \<Rightarrow> 16 word" where
  "ToInt16 v = word_of_int (if v < 0 then \<lceil>v\<rceil> else \<lfloor>v\<rfloor>)"

definition floatTo16BitPCM :: "real list \<Rightarrow> 16 word list" where
  "floatTo16BitPCM float32 =
     map (\<lambda>x. let s = max (- 1) (min 1 x)
              in ToInt16 (if s < 0 then s * 32768 else s * 32767)) float32"

definition int16ToFloat32 :: "16 word list \<Rightarrow> real list" where
  "int16ToFloat32 int16 = map (\<lambda>w. real_of_int (sint w) / 32768) int16"

text \<open>\<^verbatim>\<open>atob\<close>: the forgiving base64 decoder of the platform; \<open>None\<close> when it throws.\<close>

definition ascii_whitespace :: "char \<Rightarrow> bool" where
  "ascii_whitespace c = (of_char c \<in> {9, 10, 12, 13, 32 :: nat})"

definition base64_value :: "char \<Rightarrow> nat option" where
  "base64_value c =
     (let n = of_char c :: nat in
      if 65 \<le> n \<and> n \<le> 90 then Some (n - 65)
      else if 97 \<le> n \<and> n \<le> 122 then Some (n - 71)
      else if 48 \<le> n \<and> n \<le> 57 then Some (n + 4)
      else if n = 43 then Some 62
      else if n = 47 then Some 63
      else None)"

fun sextets_to_bytes :: "nat list \<Rightarrow> nat list" where
  "sextets_to_bytes (a # b # c # d # rest) =
     (a * 4 + b div 16) # ((b mod 16) * 16 + c div 4) # ((c mod 4) * 64 + d) # sextets_to_bytes rest"
| "sextets_to_bytes [a, b, c] = [a * 4 + b div 16, (b mod 16) * 16 + c div 4]"
| "sextets_to_bytes [a, b] = [a * 4 + b div 16]"
| "sextets_to_bytes _ = []"

definition strip_padding :: "string \<Rightarrow> string" where
  "strip_padding d =
     (if length d mod 4 = 0
      then (if d \<noteq> [] \<and> last d = CHR ''=''
            then (if butlast d \<noteq> [] \<and> last (butlast d) = CHR ''=''
                  then butlast (butlast d) else butlast d)
            else d)
      else d)"

definition atob :: "string \<Rightarrow> nat list option" where
  "atob data =
     (let d = strip_padding (filter (\<lambda>c. \<not> ascii_whitespace c) data)
      in if length d mod 4 = 1 then None
         else map_option sextets_to_bytes (those (map base64_value d)))"

text \<open>\<open>base64ToUint8Array\<close> (lines 162-170).\<close>

definition base64ToUint8Array :: "string \<Rightarrow> 8 word list option" where
  "base64ToUint8Array base64 = map_option (map of_nat) (atob base64)"

text \<open>The \<^verbatim>\<open>Int16Array\<close> view of a byte buffer of even length (little endian).\<close>

fun Int16Array :: "8 word list \<Rightarrow> 16 word list" where
  "Int16Array (lo # hi # rest) = (ucast lo OR push_bit 8 (ucast hi)) # Int16Array rest"
| "Int16Array _ = []"

section \<open>Transcripts\<close>

datatype speaker = User | Assistant

record transcript =
  t_id :: int
  t_role :: speaker
  t_text :: string
  t_timestamp :: int

text \<open>The text of one element of a \<^verbatim>\<open>segments\<close> or \<^verbatim>\<open>transcripts\<close> array.\<close>

fun segment_text :: "json \<Rightarrow> string" where
  "segment_text (JObj kvs) =
     (case map_of kvs ''text'' of
        None \<Rightarrow> []
      | Some v \<Rightarrow> (if v = JNull then String_js (JStr []) else String_js v))"
| "segment_text _ = []"

text \<open>\<open>extractTranscriptText\<close> (lines 224-267).\<close>

definition extractTranscriptText :: "jsval \<Rightarrow> string" where
  "extractTranscriptText payload =
     (if \<not> truthy payload then []
      else case payload of
        None \<Rightarrow> []
      | Some p \<Rightarrow>
         (case typeof_string payload of
            Some s \<Rightarrow> s
          | None \<Rightarrow>
             if typeof_object payload then
               (case typeof_string (getprop payload ''text'') of
                  Some t \<Rightarrow> t
                | None \<Rightarrow>
                   (case typeof_string (getprop payload ''transcript'') of
                      Some t \<Rightarrow> t
                    | None \<Rightarrow>
                       (case isArray (getprop payload ''segments'') of
                          Some segments \<Rightarrow> trim (join '' '' (map segment_text segments))
                        | None \<Rightarrow>
                           (case isArray (getprop payload ''transcripts'') of
                              Some entries \<Rightarrow> trim (join '' '' (map segment_text entries))
                            | None \<Rightarrow> JSON_stringify p))))
             else JSON_stringify p))"

text \<open>
  \<open>appendTranscript\<close> (lines 389-420), as a function of the list it updates; the first
  argument is the reading of \<^verbatim>\<open>Date.now()\<close>.
\<close>

definition appendTranscript :: "int \<Rightarrow> speaker \<Rightarrow> jsval \<Rightarrow> transcript list \<Rightarrow> transcript list" where
  "appendTranscript now role payload prev =
     (let extractedText = extractTranscriptText payload
      in if extractedText = [] \<or> trim extractedText = [] then prev
         else if length prev = 0
           then [\<lparr>t_id = 1, t_role = role, t_text = extractedText, t_timestamp = now\<rparr>]
           else prev @ [\<lparr>t_id = t_id (last prev) + 1, t_role = role,
                          t_text = extractedText, t_timestamp = now\<rparr>])"

text \<open>The effect that recomputes the displayed list from \<open>transcripts\<close> (lines 433-455);
  \<open>format_item\<close> is the body of its loop.\<close>

definition format_item :: "transcript list \<Rightarrow> transcript \<Rightarrow> transcript list" where
  "format_item formatted item =
     (if length formatted = 0 then formatted @ [item]
      else let last = last formatted
           in if t_role last = t_role item
              then butlast formatted @ [last\<lparr>t_text := t_text last @ t_text item\<rparr>]
              else formatted @ [item])"

definition formatTranscripts :: "transcript list \<Rightarrow> transcript list" where
  "formatTranscripts transcripts =
     (if length transcripts = 0 then [] else foldl format_item [] transcripts)"

text \<open>
  The rule of the specification, in its own words: on an incoming \<open>(role, text)\<close> pair,
  if the sequence is empty or the previous entry's role differs, append a new utterance;
  otherwise concatenate the text onto the last utterance.
\<close>

definition spec_aggregate :: "(speaker \<times> string) list \<Rightarrow> speaker \<times> string \<Rightarrow> (speaker \<times> string) list" where
  "spec_aggregate us f =
     (if us = [] \<or> fst (last us) \<noteq> fst f then us @ [f]
      else butlast us @ [(fst (last us), snd (last us) @ snd f)])"

section \<open>The session\<close>

datatype role = RSystem | RUser | RAssistant

record chat_message =
  m_id :: int
  m_role :: role
  m_text :: string

record server_info =
  sendSampleRate :: "int option"
  receiveSampleRate :: "int option"

datatype conn_status = Disconnected | Connecting | Connected | Error

datatype ready_state = CONNECTING | OPEN | CLOSING | CLOSED

datatype close_args = CloseDefault | CloseWith nat string

text \<open>
  A channel: the address it was opened at (base address and \<^verbatim>\<open>resume\<close> query parameter),
  its ready state, the payloads handed to \<^verbatim>\<open>send\<close>, and the arguments of the
  \<^verbatim>\<open>close\<close> call that took effect, if any.
\<close>

record web_socket =
  ws_url :: "string \<times> string option"
  readyState :: ready_state
  ws_sent :: "json list"
  ws_closed :: "close_args option"

datatype context_state = Suspended | Running

record audio_context =
  ctx_sampleRate :: int
  ctx_state :: context_state

text \<open>One \<^verbatim>\<open>source.start(startAt)\<close> on the output device.\<close>

record scheduled_source =
  src_startAt :: real
  src_samples :: "real list"
  src_sampleRate :: int

definition src_duration :: "scheduled_source \<Rightarrow> real" where
  "src_duration src = real (length (src_samples src)) / real_of_int (src_sampleRate src)"

text \<open>The reconnect timer: its delay in milliseconds and whether it is still to fire.\<close>

record timer =
  tm_delay :: int
  tm_pending :: bool

text \<open>
  The component's state variables and refs, followed by what it holds of the platform:
  the stored handle and the sources started on the output device.
\<close>

record app =
  status :: conn_status
  messages :: "chat_message list"
  transcripts :: "transcript list"
  transcriptsFormatted :: "transcript list"
  warningCount :: int
  remainingWarnings :: "int option"
  serverInfo :: "server_info option"
  resumeHandle :: "string option"
  aiSessionId :: string
  websocketRef :: "web_socket option"
  audioContextRef :: "audio_context option"
  processorRef :: bool
  micStreamRef :: bool
  videoStreamRef :: bool
  playbackTimeRef :: real
  messageIdRef :: int
  resumeHandleRef :: "string option"
  manualDisconnectRef :: bool
  reconnectTimeoutRef :: "timer option"
  reconnectAttemptsRef :: int
  connectionAttemptRef :: bool
  localStorage_resumeHandle :: "string option"
  destination :: "scheduled_source list"

text \<open>
  A callback reads the state variables of the render that created it. These are the
  values it closes over.
\<close>

record render =
  wsUrl :: string
  r_warningCount :: int
  r_serverInfo :: "server_info option"
  r_cameraEnabled :: bool
  r_resumeText :: string
  r_jobDescriptionText :: string

text \<open>What a callback reads from the platform while it runs.\<close>

record env =
  currentTime :: real
  Date_now :: int
  nativeSampleRate :: int

definition FALLBACK_SEND_SAMPLE_RATE :: int where
  "FALLBACK_SEND_SAMPLE_RATE = 16000"

text \<open>Truthiness of a \<^verbatim>\<open>string | null\<close>.\<close>

definition nonempty :: "string option \<Rightarrow> bool" where
  "nonempty h = (case h of None \<Rightarrow> False | Some x \<Rightarrow> x \<noteq> [])"

text \<open>
  The component once mounted, before its first connection; the argument is what
  \<^verbatim>\<open>localStorage.getItem("resumeHandle")\<close> returned. The mount effect copies the state to
  the ref and stores a non-empty handle, removing the key otherwise.
\<close>

definition initial :: "string option \<Rightarrow> app" where
  "initial stored =
     \<lparr>status = Disconnected, messages = [], transcripts = [], transcriptsFormatted = [],
      warningCount = 0, remainingWarnings = None, serverInfo = None,
      resumeHandle = stored, aiSessionId = [],
      websocketRef = None, audioContextRef = None, processorRef = False,
      micStreamRef = False, videoStreamRef = False, playbackTimeRef = 0,
      messageIdRef = 0, resumeHandleRef = stored, manualDisconnectRef = False,
      reconnectTimeoutRef = None, reconnectAttemptsRef = 0, connectionAttemptRef = False,
      localStorage_resumeHandle = (if nonempty stored then stored else None),
      destination = []\<rparr>"

definition appendMessage :: "role \<Rightarrow> string \<Rightarrow> app \<Rightarrow> app" where
  "appendMessage role text s =
     (if text = [] then s
      else s\<lparr>messageIdRef := messageIdRef s + 1,
             messages := messages s @
               [\<lparr>m_id = messageIdRef s + 1, m_role = role, m_text = text\<rparr>]\<rparr>)"

text \<open>\<open>ensureAudioContext\<close> (lines 421-431): a context that is created or resumed runs.\<close>

definition ensureAudioContext :: "env \<Rightarrow> app \<Rightarrow> app" where
  "ensureAudioContext e s =
     (case audioContextRef s of
        None \<Rightarrow> s\<lparr>audioContextRef :=
                    Some \<lparr>ctx_sampleRate = nativeSampleRate e, ctx_state = Running\<rparr>\<rparr>
      | Some ctx \<Rightarrow>
          (if ctx_state ctx = Suspended
           then s\<lparr>audioContextRef := Some (ctx\<lparr>ctx_state := Running\<rparr>)\<rparr>
           else s))"

definition stopVideoCapture :: "app \<Rightarrow> app" where
  "stopVideoCapture s = s\<lparr>videoStreamRef := False\<rparr>"

definition stopAudioCapture :: "app \<Rightarrow> app" where
  "stopAudioCapture s =
     s\<lparr>processorRef := False, micStreamRef := False, audioContextRef := None,
       playbackTimeRef := 0\<rparr>"

definition cleanupMedia :: "app \<Rightarrow> app" where
  "cleanupMedia s = stopVideoCapture (stopAudioCapture s)"

text \<open>
  Device acquisition. The Boolean argument says whether the platform grants the device;
  the Boolean result says whether the call returned rather than threw.
\<close>

definition startAudioCapture :: "env \<Rightarrow> bool \<Rightarrow> app \<Rightarrow> app \<times> bool" where
  "startAudioCapture e granted s =
     (let s1 = ensureAudioContext e s
      in if granted then (s1\<lparr>micStreamRef := True, processorRef := True\<rparr>, True)
         else (s1, False))"

definition startVideoCapture :: "bool \<Rightarrow> app \<Rightarrow> app \<times> bool" where
  "startVideoCapture granted s =
     (if granted then (s\<lparr>videoStreamRef := True\<rparr>, True) else (s, False))"

text \<open>The rate the capture callback resamples to, from the record its render holds.\<close>

definition desiredRate :: "server_info option \<Rightarrow> int" where
  "desiredRate info =
     (case info of
        None \<Rightarrow> FALLBACK_SEND_SAMPLE_RATE
      | Some i \<Rightarrow> (case sendSampleRate i of None \<Rightarrow> FALLBACK_SEND_SAMPLE_RATE | Some r \<Rightarrow> r))"

text \<open>The rate of a playback buffer: the frame's own, else the negotiated one, else the
  device's.\<close>

definition targetSampleRate :: "int option \<Rightarrow> server_info option \<Rightarrow> audio_context \<Rightarrow> int" where
  "targetSampleRate sampleRate info ctx =
     (case sampleRate of
        Some r \<Rightarrow> r
      | None \<Rightarrow>
         (case info of
            None \<Rightarrow> ctx_sampleRate ctx
          | Some i \<Rightarrow> (case receiveSampleRate i of None \<Rightarrow> ctx_sampleRate ctx | Some r \<Rightarrow> r)))"

text \<open>
  \<open>playAssistantAudio\<close> (lines 656-688); the clock reading \<^verbatim>\<open>ctx.currentTime\<close> comes
  from the environment. A call that throws leaves the state as it was when it threw:
  \<^verbatim>\<open>atob\<close> on malformed text, \<^verbatim>\<open>createBuffer\<close> on a sample rate the platform does not
  support (here: the rates that are not positive; a platform may refuse more).
\<close>

definition playAssistantAudio :: "render \<Rightarrow> env \<Rightarrow> string \<Rightarrow> int option \<Rightarrow> app \<Rightarrow> app" where
  "playAssistantAudio r e base64 sampleRate s =
     (let s1 = ensureAudioContext e s
      in case audioContextRef s1 of
           None \<Rightarrow> s1
         | Some ctx \<Rightarrow>
            (case base64ToUint8Array base64 of
               None \<Rightarrow> s1
             | Some bytes \<Rightarrow>
                if length bytes mod 2 \<noteq> 0 then s1
                else
                  let pcm = Int16Array bytes
                  in if length pcm = 0 then s1
                     else
                       let floats = int16ToFloat32 pcm;
                           target = targetSampleRate sampleRate (r_serverInfo r) ctx
                       in if target \<le> 0 then s1
                          else
                            let now = currentTime e;
                                startAt = max (now + 0.05)
                                  (if playbackTimeRef s1 = 0 then now + 0.05 else playbackTimeRef s1);
                                source = \<lparr>src_startAt = startAt, src_samples = floats,
                                          src_sampleRate = target\<rparr>
                            in s1\<lparr>destination := destination s1 @ [source],
                                   playbackTimeRef := startAt + src_duration source\<rparr>))"

definition ws_send :: "json \<Rightarrow> web_socket \<Rightarrow> web_socket" where
  "ws_send payload ws = ws\<lparr>ws_sent := ws_sent ws @ [payload]\<rparr>"

text \<open>\<^verbatim>\<open>close\<close> starts the closing handshake unless the channel is closing or closed.\<close>

definition ws_close :: "close_args \<Rightarrow> web_socket \<Rightarrow> web_socket" where
  "ws_close args ws =
     (if readyState ws = CLOSING \<or> readyState ws = CLOSED then ws
      else ws\<lparr>readyState := CLOSING, ws_closed := Some args\<rparr>)"

subsection \<open>The dispatcher\<close>

definition handle_status :: "jsval \<Rightarrow> app \<Rightarrow> app" where
  "handle_status data s =
     (let info = \<lparr>sendSampleRate = typeof_number (getprop data ''sendSampleRate''),
                  receiveSampleRate = typeof_number (getprop data ''receiveSampleRate'')\<rparr>;
          s1 = s\<lparr>serverInfo := Some info\<rparr>;
          s2 = (case typeof_string (getprop data ''resumeHandle'') of
                  Some h \<Rightarrow> if h \<noteq> [] then s1\<lparr>resumeHandle := Some h\<rparr> else s1
                | None \<Rightarrow> s1);
          s3 = s2\<lparr>status := (if status s2 = Connecting then Connected else status s2)\<rparr>
      in appendMessage RSystem ''Connected to interview server.'' s3)"

definition handle_audio :: "render \<Rightarrow> env \<Rightarrow> jsval \<Rightarrow> app \<Rightarrow> app" where
  "handle_audio r e data s =
     (case typeof_string (getprop data ''data'') of
        Some b \<Rightarrow> playAssistantAudio r e b (typeof_number (getprop data ''sampleRate'')) s
      | None \<Rightarrow> s)"

definition handle_text :: "jsval \<Rightarrow> app \<Rightarrow> app" where
  "handle_text data s =
     (case typeof_string (getprop data ''text'') of
        Some t \<Rightarrow> appendMessage RAssistant t s
      | None \<Rightarrow> s)"

definition handle_transcript :: "env \<Rightarrow> jsval \<Rightarrow> app \<Rightarrow> app" where
  "handle_transcript e data s =
     (case typeof_string (getprop data ''role'') of
        Some x \<Rightarrow>
          (let role = (if x = ''user'' then User else Assistant)
           in s\<lparr>transcripts :=
                  appendTranscript (Date_now e) role (getprop data ''payload'') (transcripts s)\<rparr>)
      | None \<Rightarrow> s)"

definition handle_monitor :: "render \<Rightarrow> jsval \<Rightarrow> app \<Rightarrow> app" where
  "handle_monitor r data s =
     (if getprop data ''event'' = Some (JStr ''look_away_warning'') then
        (let warnings = (case typeof_number (getprop data ''warnings'') of
                           Some n \<Rightarrow> n | None \<Rightarrow> r_warningCount r + 1);
             remaining = typeof_number (getprop data ''remaining'')
         in appendMessage RSystem (''Eye-contact warning '' @ Number_toString warnings @ ''.'')
              (s\<lparr>warningCount := warnings, remainingWarnings := remaining\<rparr>))
      else if getprop data ''event'' = Some (JStr ''look_away_terminated'') then
        appendMessage RSystem ''Session will conclude due to repeated look-aways.''
          (s\<lparr>warningCount := (case typeof_number (getprop data ''warnings'') of
                                 Some n \<Rightarrow> n | None \<Rightarrow> r_warningCount r),
             remainingWarnings := Some 0\<rparr>)
      else s)"

definition handle_recordings :: "jsval \<Rightarrow> app \<Rightarrow> app" where
  "handle_recordings data s =
     (let sessionId = (case typeof_string (getprop data ''sessionId'') of
                         Some x \<Rightarrow> x | None \<Rightarrow> ''unknown'');
          part = (\<lambda>label key. case typeof_string (getprop data key) of
                      Some x \<Rightarrow> [label @ '': '' @ x] | None \<Rightarrow> []);
          parts = part ''assistant'' ''assistantPath'' @ part ''candidate'' ''candidatePath'' @
                  part ''mix'' ''mixPath'' @ part ''transcripts'' ''transcriptsPath''
      in if length parts > 0
         then appendMessage RSystem
                (''Artifacts for session '' @ sessionId @ '' saved -> '' @ join '', '' parts) s
         else s)"

definition close_if_open :: "close_args \<Rightarrow> app \<Rightarrow> app" where
  "close_if_open args s =
     (case websocketRef s of
        Some ws \<Rightarrow> (if readyState ws = OPEN then s\<lparr>websocketRef := Some (ws_close args ws)\<rparr> else s)
      | None \<Rightarrow> s)"

definition handle_session_complete :: "jsval \<Rightarrow> app \<Rightarrow> app" where
  "handle_session_complete data s =
     (let reason = (case typeof_string (getprop data ''reason'') of
                      Some x \<Rightarrow> x | None \<Rightarrow> ''completed'');
          detailSuffix = (case typeof_string (getprop data ''detail'') of
                            Some d \<Rightarrow> (if d \<noteq> [] then '': '' @ d else [])
                          | None \<Rightarrow> []);
          s1 = appendMessage RSystem (''Session complete ('' @ reason @ '')'' @ detailSuffix) s;
          s2 = s1\<lparr>manualDisconnectRef := True, reconnectAttemptsRef := 0,
                  resumeHandleRef := None, resumeHandle := None\<rparr>;
          s3 = close_if_open (CloseWith 1000 ''session complete'') s2
      in s3\<lparr>status := Disconnected\<rparr>)"

definition handle_session_resumption :: "jsval \<Rightarrow> app \<Rightarrow> app" where
  "handle_session_resumption data s =
     (case typeof_string (getprop data ''handle'') of
        Some h \<Rightarrow>
          (if h \<noteq> [] then
             appendMessage RSystem
               ''Session resume handle updated. You can reconnect without losing context.''
               (s\<lparr>resumeHandle := Some h, aiSessionId := h\<rparr>)
           else s)
      | None \<Rightarrow> s)"

definition handle_context_ack :: "jsval \<Rightarrow> app \<Rightarrow> app" where
  "handle_context_ack data s =
     (let updated = (case isArray (getprop data ''updated'') of Some xs \<Rightarrow> xs | None \<Rightarrow> [])
      in if length updated > 0 then
           (let labels = map (\<lambda>field. if field = JStr ''jobDescription''
                                       then ''job description''
                                       else if field = JNull then [] else String_js field) updated
            in appendMessage RSystem
                 (''Interview context updated ('' @ join '' & '' labels @ '').'') s)
         else appendMessage RSystem
                ''Context update ignored. Provide a resume and/or job description to override the defaults.''
                s)"

definition handle_error :: "jsval \<Rightarrow> app \<Rightarrow> app" where
  "handle_error data s =
     (let message = (case typeof_string (getprop data ''message'') of
                       Some x \<Rightarrow> x | None \<Rightarrow> ''Server error'');
          details = (case typeof_string (getprop data ''details'') of
                       Some x \<Rightarrow> x | None \<Rightarrow> []);
          s1 = appendMessage RSystem
                 (''Error: '' @ message @ (if details \<noteq> [] then '' ('' @ details @ '')'' else [])) s
      in s1\<lparr>status := Error\<rparr>)"

definition handle_session_expired :: "jsval \<Rightarrow> app \<Rightarrow> app" where
  "handle_session_expired data s =
     (let message = (case typeof_string (getprop data ''message'') of
                       Some x \<Rightarrow> x
                     | None \<Rightarrow> ''Session expired. Please start a new interview.'');
          s1 = appendMessage RSystem message s;
          s2 = s1\<lparr>resumeHandle := None, resumeHandleRef := None\<rparr>;
          s3 = s2\<lparr>manualDisconnectRef := True, reconnectAttemptsRef := 0\<rparr>;
          s4 = close_if_open (CloseWith 1000 ''session expired'') s3
      in s4\<lparr>status := Disconnected\<rparr>)"

text \<open>
  \<open>handleServerMessage\<close> (lines 690-885), one definition for each case of its switch
  above. The argument is the result of \<^verbatim>\<open>JSON.parse\<close>: \<open>None\<close> when it
  threw. Reading \<^verbatim>\<open>data.type\<close> of \<^verbatim>\<open>null\<close> throws and the message is lost.
\<close>

definition handleServerMessage :: "render \<Rightarrow> env \<Rightarrow> json option \<Rightarrow> app \<Rightarrow> app" where
  "handleServerMessage r e parsed s =
     (case parsed of
        None \<Rightarrow> s
      | Some JNull \<Rightarrow> s
      | Some d \<Rightarrow>
         (let data = Some d in
          case typeof_string (getprop data ''type'') of
            None \<Rightarrow> s
          | Some type \<Rightarrow>
             if type = ''status'' then handle_status data s
             else if type = ''audio'' then handle_audio r e data s
             else if type = ''text'' then handle_text data s
             else if type = ''transcript'' then handle_transcript e data s
             else if type = ''monitor'' then handle_monitor r data s
             else if type = ''recordings'' then handle_recordings data s
             else if type = ''session_complete'' then handle_session_complete data s
             else if type = ''session_resumption'' then handle_session_resumption data s
             else if type = ''context_ack'' then handle_context_ack data s
             else if type = ''error'' then handle_error data s
             else if type = ''session_expired'' then handle_session_expired data s
             else s))"

text \<open>
  The effects that run after a handler changed \<open>transcripts\<close> or \<open>resumeHandle\<close>:
  the displayed list is recomputed, the handle is copied to its ref and stored.
\<close>

definition run_effects :: "app \<Rightarrow> app \<Rightarrow> app" where
  "run_effects before s =
     (let s1 = (if transcripts s = transcripts before then s
                else s\<lparr>transcriptsFormatted := formatTranscripts (transcripts s)\<rparr>)
      in if resumeHandle s1 = resumeHandle before then s1
         else s1\<lparr>resumeHandleRef := resumeHandle s1,
                 localStorage_resumeHandle :=
                   (if nonempty (resumeHandle s1) then resumeHandle s1 else None)\<rparr>)"

definition ws_onmessage :: "render \<Rightarrow> env \<Rightarrow> json option \<Rightarrow> app \<Rightarrow> app" where
  "ws_onmessage r e parsed s = run_effects s (handleServerMessage r e parsed s)"

subsection \<open>Connection life cycle\<close>

text \<open>\<open>buildConnectionUrl\<close> (lines 269-285): the address is kept as the base address and
  the handle sent as the \<^verbatim>\<open>resume\<close> query parameter.\<close>

definition buildConnectionUrl :: "string \<Rightarrow> string option \<Rightarrow> string \<times> string option" where
  "buildConnectionUrl baseUrl handle =
     (if \<not> nonempty handle then (baseUrl, None) else (baseUrl, handle))"

text \<open>\<open>connect\<close> (lines 887-907), up to the creation of the channel; the callbacks it
  installs follow.\<close>

definition connect :: "render \<Rightarrow> bool \<Rightarrow> app \<Rightarrow> app" where
  "connect r isReconnect s =
     (if websocketRef s \<noteq> None \<or> connectionAttemptRef s then s
      else
        let s1 = (if \<not> isReconnect \<and> reconnectTimeoutRef s \<noteq> None
                  then s\<lparr>reconnectTimeoutRef := None\<rparr> else s);
            s2 = s1\<lparr>connectionAttemptRef := True, manualDisconnectRef := False\<rparr>;
            s3 = (if \<not> isReconnect then s2\<lparr>reconnectAttemptsRef := 0\<rparr> else s2);
            connectionUrl = buildConnectionUrl (wsUrl r) (resumeHandleRef s3);
            ws = \<lparr>ws_url = connectionUrl, readyState = CONNECTING, ws_sent = [], ws_closed = None\<rparr>
        in s3\<lparr>status := Connecting, websocketRef := Some ws\<rparr>)"

text \<open>
  \<open>ws_onopen\<close> (lines 909-946): the channel opened. The two Booleans after the environment say whether
  the microphone and the camera are granted.
\<close>

definition ws_onopen :: "render \<Rightarrow> bool \<Rightarrow> env \<Rightarrow> bool \<Rightarrow> bool \<Rightarrow> app \<Rightarrow> app" where
  "ws_onopen r isReconnect e mic cam s =
     (case websocketRef s of
        None \<Rightarrow> s
      | Some ws0 \<Rightarrow>
         (let ws1 = ws0\<lparr>readyState := OPEN\<rparr>;
              trimmedResume = trim (r_resumeText r);
              trimmedJobDescription = trim (r_jobDescriptionText r);
              ws2 = (if trimmedResume \<noteq> [] \<or> trimmedJobDescription \<noteq> []
                     then ws_send (JObj [(''type'', JStr ''context''),
                                         (''resumeText'', JStr trimmedResume),
                                         (''jobDescriptionText'', JStr trimmedJobDescription)]) ws1
                     else ws1);
              s1 = s\<lparr>websocketRef := Some ws2\<rparr>;
              a = startAudioCapture e mic s1;
              v = (if snd a \<and> r_cameraEnabled r \<and> \<not> videoStreamRef (fst a)
                   then startVideoCapture cam (fst a) else a)
          in if snd v then
               (let s2 = (fst v)\<lparr>reconnectAttemptsRef := 0, connectionAttemptRef := False,
                                 status := Connected\<rparr>
                in if isReconnect
                   then appendMessage RSystem
                          ''Reconnected to interview session using stored handle.'' s2
                   else s2)
             else (fst v)\<lparr>connectionAttemptRef := False, status := Error,
                           websocketRef := Some (ws_close CloseDefault ws2)\<rparr>))"


text \<open>\<^verbatim>\<open>Math.round\<close> of a quotient of integers.\<close>

definition Math_round_div :: "int \<Rightarrow> int \<Rightarrow> int" where
  "Math_round_div a b = \<lfloor>real_of_int a / real_of_int b + 1 / 2\<rfloor>"

definition reconnect_delay :: "int \<Rightarrow> int" where
  "reconnect_delay attempts = min 10000 (1000 * 2 ^ nat (max 0 (attempts - 1)))"

definition ws_onclose :: "app \<Rightarrow> app" where
  "ws_onclose s =
     (let s1 = cleanupMedia (s\<lparr>connectionAttemptRef := False, websocketRef := None\<rparr>);
          s2 = (if reconnectTimeoutRef s1 \<noteq> None then s1\<lparr>reconnectTimeoutRef := None\<rparr> else s1)
      in if \<not> manualDisconnectRef s2 \<and> nonempty (resumeHandleRef s2) then
           (let s3 = s2\<lparr>reconnectAttemptsRef := reconnectAttemptsRef s2 + 1\<rparr>
            in if reconnectAttemptsRef s3 > 5 then
                 appendMessage RSystem
                   ''Reached maximum reconnection attempts. Please reconnect manually.''
                   (s3\<lparr>status := Error\<rparr>)
               else
                 (let delay = reconnect_delay (reconnectAttemptsRef s3);
                      s4 = appendMessage RSystem
                             (''Connection lost. Attempting to resume in '' @
                              Number_toString (Math_round_div delay 1000) @ ''s (try '' @
                              Number_toString (reconnectAttemptsRef s3) @ ''/5).'')
                             (s3\<lparr>status := Connecting\<rparr>)
                  in s4\<lparr>reconnectTimeoutRef := Some \<lparr>tm_delay = delay, tm_pending = True\<rparr>\<rparr>))
         else s2\<lparr>status := Disconnected\<rparr>)"


text \<open>\<open>disconnect\<close> (lines 1011-1030).\<close>

definition disconnect :: "app \<Rightarrow> app" where
  "disconnect s =
     (let s1 = s\<lparr>manualDisconnectRef := True\<rparr>;
          s2 = (if reconnectTimeoutRef s1 \<noteq> None then s1\<lparr>reconnectTimeoutRef := None\<rparr> else s1);
          s3 = s2\<lparr>reconnectAttemptsRef := 0\<rparr>
      in case websocketRef s3 of
           Some ws \<Rightarrow>
             (if readyState ws = OPEN
              then s3\<lparr>websocketRef := Some (ws_close CloseDefault
                        (ws_send (JObj [(''type'', JStr ''control''), (''action'', JStr ''stop'')]) ws))\<rparr>
              else s3\<lparr>websocketRef := Some (ws_close CloseDefault ws)\<rparr>)
         | None \<Rightarrow> (cleanupMedia s3)\<lparr>connectionAttemptRef := False, status := Disconnected\<rparr>)"


section \<open>Notions used by the properties\<close>

text \<open>What the transcript shows of an utterance.\<close>

definition role_text :: "transcript \<Rightarrow> speaker \<times> string" where
  "role_text t = (t_role t, t_text t)"


text \<open>Quantising one sample and reading it back.\<close>

definition roundtrip :: "real \<Rightarrow> real" where
  "roundtrip x = int16ToFloat32 (floatTo16BitPCM [x]) ! 0"

text \<open>The delay of the reconnect attempt that is scheduled and has not fired, if any.\<close>

definition scheduled_reconnect :: "app \<Rightarrow> int option" where
  "scheduled_reconnect s =
     (case reconnectTimeoutRef s of
        None \<Rightarrow> None
      | Some t \<Rightarrow> if tm_pending t then Some (tm_delay t) else None)"



text \<open>A concrete session, used to instantiate the properties: a render, a platform
  reading, and the state after a first connection opened with the microphone granted.\<close>

definition example_render :: render where
  "example_render =
     \<lparr>wsUrl = ''ws://localhost:8000/ws/interview'', r_warningCount = 0, r_serverInfo = None,
      r_cameraEnabled = False, r_resumeText = [], r_jobDescriptionText = []\<rparr>"

definition example_env :: env where
  "example_env = \<lparr>currentTime = 1, Date_now = 1000, nativeSampleRate = 48000\<rparr>"

definition live_session :: app where
  "live_session =
     ws_onopen example_render False example_env True False
       (connect example_render False (initial (Some ''h'')))"

definition live_socket :: web_socket where
  "live_socket =
     \<lparr>ws_url = (''ws://localhost:8000/ws/interview'', Some ''h''), readyState = OPEN,
      ws_sent = [], ws_closed = None\<rparr>"

text \<open>The start time the scheduler gives a frame, from the clock reading and the cursor
  (a cursor of \<open>0\<close> counts as unset).\<close>

definition startAt_for :: "real \<Rightarrow> real \<Rightarrow> real" where
  "startAt_for now cursor = max (now + 0.05) (if cursor = 0 then now + 0.05 else cursor)"


text \<open>
  A second connection: the first session negotiated both rates as 24000 Hz, the user
  disconnected, the closure was handled, and the user connected again. The render in
  which that \<open>connect\<close> ran holds the negotiated record, and so do the callbacks the
  connection installed.
\<close>

definition negotiated :: server_info where
  "negotiated = \<lparr>sendSampleRate = Some 24000, receiveSampleRate = Some 24000\<rparr>"

definition second_render :: render where
  "second_render = example_render\<lparr>r_serverInfo := Some negotiated\<rparr>"

definition first_session_ended :: app where
  "first_session_ended =
     ws_onclose (disconnect (ws_onmessage example_render example_env
       (Some (JObj [(''type'', JStr ''status''), (''sendSampleRate'', JNum 24000),
                    (''receiveSampleRate'', JNum 24000)])) live_session))"

definition second_session :: app where
  "second_session =
     ws_onopen second_render False example_env True False
       (connect second_render False first_session_ended)"


text \<open>The displayed list is the recomputation of \<open>transcripts\<close>.\<close>

definition shown :: "app \<Rightarrow> bool" where
  "shown s = (transcriptsFormatted s = formatTranscripts (transcripts s))"


section \<open>The concrete session\<close>

lemma live_session_fields:
  "websocketRef live_session = Some live_socket"
  "status live_session = Connected"
  "resumeHandle live_session = Some ''h''"
  "resumeHandleRef live_session = Some ''h''"
  "\<not> manualDisconnectRef live_session"
  "reconnectAttemptsRef live_session = 0"
  "reconnectTimeoutRef live_session = None"
  "playbackTimeRef live_session = 0"
  "destination live_session = []"
  "audioContextRef live_session = Some \<lparr>ctx_sampleRate = 48000, ctx_state = Running\<rparr>"
  by (simp_all add: live_session_def live_socket_def ws_onopen_def connect_def initial_def
      example_render_def example_env_def buildConnectionUrl_def nonempty_def trim_def
      startAudioCapture_def ensureAudioContext_def Let_def)

section \<open>Codec: the quantisation round trip\<close>


lemma sint_ToInt16_nonneg:
  assumes "0 \<le> v" "v < 32768"
  shows "sint (ToInt16 v) = \<lfloor>v\<rfloor>"
proof -
  have "0 \<le> \<lfloor>v\<rfloor>" "\<lfloor>v\<rfloor> < 32768" using assms by (simp_all add: floor_less_iff)
  then show ?thesis using assms
    by (simp add: ToInt16_def sint_sbintrunc' signed_take_bit_int_eq_self)
qed

lemma sint_ToInt16_neg:
  assumes "v < 0" "- 32768 \<le> v"
  shows "sint (ToInt16 v) = \<lceil>v\<rceil>"
proof -
  have "\<lceil>v\<rceil> \<le> 0" "- 32768 \<le> \<lceil>v\<rceil>" using assms by (simp_all add: ceiling_le_iff le_ceiling_iff)
  then show ?thesis using assms
    by (simp add: ToInt16_def sint_sbintrunc' signed_take_bit_int_eq_self)
qed

lemma scaled_error:
  fixes x c :: real
  assumes "\<bar>x * 32768 - c\<bar> < k"
  shows "\<bar>x - c / 32768\<bar> < k / 32768"
proof -
  have "x - c / 32768 = (x * 32768 - c) / 32768" by (simp add: field_simps)
  then have "\<bar>x - c / 32768\<bar> = \<bar>x * 32768 - c\<bar> / 32768"
    by (simp only: abs_divide abs_numeral)
  then show ?thesis using assms by (simp only: divide_strict_right_mono zero_less_numeral)
qed

lemma roundtrip_neg:
  assumes "- 1 \<le> x" "x < 0"
  shows "roundtrip x = real_of_int \<lceil>x * 32768\<rceil> / 32768"
proof -
  have "x * 32768 < 0" "- 32768 \<le> x * 32768" using assms by simp_all
  then show ?thesis using assms
    by (simp add: roundtrip_def int16ToFloat32_def floatTo16BitPCM_def sint_ToInt16_neg
        del: of_int_sint)
qed

lemma roundtrip_nonneg:
  assumes "0 \<le> x" "x \<le> 1"
  shows "roundtrip x = real_of_int \<lfloor>x * 32767\<rfloor> / 32768"
proof -
  have "0 \<le> x * 32767" "x * 32767 < 32768" using assms by simp_all
  then show ?thesis using assms
    by (simp add: roundtrip_def int16ToFloat32_def floatTo16BitPCM_def sint_ToInt16_nonneg
        del: of_int_sint)
qed

text \<open>
  C5 (as the specification states it): for every sample \<open>x\<close> in \<open>[-1, 1]\<close>, quantising and
  dequantising gives a value within \<open>1/32768\<close> of \<open>x\<close>. The sample \<open>65535/65536\<close> is
  quantised to \<open>32766\<close> and read back as \<open>32766/32768\<close>, which is \<open>1.5/32768\<close> away.
\<close>

theorem quantize_roundtrip_counterexample:
  "- 1 \<le> (65535 / 65536 :: real) \<and> (65535 / 65536 :: real) \<le> 1 \<and>
   floatTo16BitPCM [65535 / 65536] = [32766] \<and>
   roundtrip (65535 / 65536) = 32766 / 32768 \<and>
   \<not> \<bar>65535 / 65536 - roundtrip (65535 / 65536)\<bar> \<le> 1 / 32768"
  by (simp add: roundtrip_def int16ToFloat32_def floatTo16BitPCM_def ToInt16_def)

text \<open>
  C5 (amended): for every sample \<open>x\<close> in \<open>[-1, 1]\<close>, quantising and dequantising gives a
  value less than \<open>2/32768\<close> away from \<open>x\<close>, and less than \<open>1/32768\<close> away when \<open>x\<close> is
  not positive. Non-negative samples are scaled by \<open>32767\<close> and read back by \<open>32768\<close>,
  which adds up to \<open>x/32768\<close> to the truncation error.
\<close>

theorem quantize_roundtrip_bound:
  assumes "- 1 \<le> x" "x \<le> 1"
  shows "\<bar>x - roundtrip x\<bar> < 2 / 32768 \<and> (x \<le> 0 \<longrightarrow> \<bar>x - roundtrip x\<bar> < 1 / 32768)"
proof (cases "x < 0")
  case True
  have r: "roundtrip x = real_of_int \<lceil>x * 32768\<rceil> / 32768"
    using assms True by (simp add: roundtrip_neg)
  have "x * 32768 \<le> real_of_int \<lceil>x * 32768\<rceil>" "real_of_int \<lceil>x * 32768\<rceil> < x * 32768 + 1"
    by linarith+
  then have "\<bar>x * 32768 - real_of_int \<lceil>x * 32768\<rceil>\<bar> < 1" by linarith
  from scaled_error [OF this] have "\<bar>x - roundtrip x\<bar> < 1 / 32768" by (simp only: r)
  then show ?thesis by simp
next
  case False
  have r: "roundtrip x = real_of_int \<lfloor>x * 32767\<rfloor> / 32768"
    using assms False by (simp add: roundtrip_nonneg)
  have fl: "real_of_int \<lfloor>x * 32767\<rfloor> \<le> x * 32767" "x * 32767 < real_of_int \<lfloor>x * 32767\<rfloor> + 1"
    by linarith+
  have two: "\<bar>x * 32768 - real_of_int \<lfloor>x * 32767\<rfloor>\<bar> < 2" using fl False assms by linarith
  have zero: "x \<le> 0 \<Longrightarrow> \<bar>x * 32768 - real_of_int \<lfloor>x * 32767\<rfloor>\<bar> < 1" using False by simp
  from scaled_error [OF two] have a: "\<bar>x - roundtrip x\<bar> < 2 / 32768" by (simp only: r)
  have b: "x \<le> 0 \<Longrightarrow> \<bar>x - roundtrip x\<bar> < 1 / 32768"
    using scaled_error [OF zero] by (simp only: r)
  from a b show ?thesis by blast
qed

theorem quantize_roundtrip_bound_witness:
  "- 1 \<le> (- 1 / 3 :: real) \<and> (- 1 / 3 :: real) \<le> 1 \<and> (- 1 / 3 :: real) \<le> 0 \<and>
   \<bar>- 1 / 3 - roundtrip (- 1 / 3)\<bar> < 2 / 32768 \<and>
   \<bar>- 1 / 3 - roundtrip (- 1 / 3)\<bar> < 1 / 32768"
proof -
  have a: "- 1 \<le> (- 1 / 3 :: real)" and b: "(- 1 / 3 :: real) \<le> 1" and c: "(- 1 / 3 :: real) \<le> 0"
    by simp_all
  from quantize_roundtrip_bound [OF a b] c a b show ?thesis by blast
qed

section \<open>Transcript aggregation\<close>

lemma formatTranscripts_foldl: "formatTranscripts ts = foldl format_item [] ts"
  by (simp add: formatTranscripts_def)

lemma formatTranscripts_snoc:
  "formatTranscripts (ts @ [item]) = format_item (formatTranscripts ts) item"
  by (simp add: formatTranscripts_foldl)

lemma role_text_format_item:
  "map role_text (format_item formatted item) =
     spec_aggregate (map role_text formatted) (role_text item)"
proof (cases "formatted = []")
  case True
  then show ?thesis by (simp add: format_item_def spec_aggregate_def)
next
  case False
  then show ?thesis
    by (simp add: format_item_def spec_aggregate_def Let_def last_map map_butlast role_text_def)
qed

lemma appendTranscript_cases:
  "appendTranscript now role payload prev =
     (if extractTranscriptText payload = [] \<or> trim (extractTranscriptText payload) = [] then prev
      else prev @ [\<lparr>t_id = (if prev = [] then 1 else t_id (last prev) + 1), t_role = role,
                     t_text = extractTranscriptText payload, t_timestamp = now\<rparr>])"
  by (simp add: appendTranscript_def Let_def)

lemma trim_Nil: "trim [] = []"
  by (simp add: trim_def)

text \<open>
  C1 (as the specification states it): every fragment either starts a new utterance or is
  concatenated onto the last one. A fragment whose text is a single space, arriving after
  \<open>(user, "Hel")\<close>, is neither: it is dropped, and the transcript still reads \<open>"Hel"\<close> where
  the rule gives \<open>"Hel "\<close>.
\<close>

theorem transcript_aggregation_counterexample:
  "map role_text (formatTranscripts (appendTranscript 2 User (Some (JStr '' ''))
      [\<lparr>t_id = 1, t_role = User, t_text = ''Hel'', t_timestamp = 1\<rparr>])) = [(User, ''Hel'')] \<and>
   spec_aggregate (map role_text (formatTranscripts
      [\<lparr>t_id = 1, t_role = User, t_text = ''Hel'', t_timestamp = 1\<rparr>])) (User, '' '') =
     [(User, ''Hel '')]"
  by (simp add: appendTranscript_def extractTranscriptText_def trim_def WhiteSpace_def
      formatTranscripts_def format_item_def role_text_def spec_aggregate_def)

text \<open>
  C1 (amended): for every fragment delivered to the aggregator, if its extracted text is
  empty or only white space the utterance sequence is unchanged; otherwise, if the
  sequence is empty or the previous entry's role differs from the fragment's role a new
  utterance is appended, and else the fragment's text is concatenated onto the last
  utterance's text. The fragments \<open>(user, "Hel")\<close>, \<open>(user, "lo")\<close>, \<open>(assistant, "Hi")\<close>
  produce exactly \<open>(user, "Hello")\<close>, \<open>(assistant, "Hi")\<close>.
\<close>

theorem transcript_aggregation:
  "map role_text (formatTranscripts (appendTranscript now role payload prev)) =
     (if trim (extractTranscriptText payload) = [] then map role_text (formatTranscripts prev)
      else spec_aggregate (map role_text (formatTranscripts prev))
             (role, extractTranscriptText payload)) \<and>
   map role_text (formatTranscripts
     (foldl (\<lambda>ts (now, role, text). appendTranscript now role (Some (JStr text)) ts) []
        [(t1, User, ''Hel''), (t2, User, ''lo''), (t3, Assistant, ''Hi'')])) =
     [(User, ''Hello''), (Assistant, ''Hi'')]"
proof
  show "map role_text (formatTranscripts (appendTranscript now role payload prev)) =
     (if trim (extractTranscriptText payload) = [] then map role_text (formatTranscripts prev)
      else spec_aggregate (map role_text (formatTranscripts prev))
             (role, extractTranscriptText payload))"
    by (auto simp add: appendTranscript_cases formatTranscripts_snoc role_text_format_item
        role_text_def trim_Nil)
  show "map role_text (formatTranscripts
     (foldl (\<lambda>ts (now, role, text). appendTranscript now role (Some (JStr text)) ts) []
        [(t1, User, ''Hel''), (t2, User, ''lo''), (t3, Assistant, ''Hi'')])) =
     [(User, ''Hello''), (Assistant, ''Hi'')]"
    by (simp add: appendTranscript_def extractTranscriptText_def trim_def WhiteSpace_def
        formatTranscripts_def format_item_def role_text_def)
qed

theorem transcript_aggregation_witness:
  "trim (extractTranscriptText (Some (JStr ''lo''))) \<noteq> [] \<and>
   map role_text (formatTranscripts (appendTranscript 2 User (Some (JStr ''lo''))
      [\<lparr>t_id = 1, t_role = User, t_text = ''Hel'', t_timestamp = 1\<rparr>])) = [(User, ''Hello'')]"
  using transcript_aggregation [where now = 2 and role = User and payload = "Some (JStr ''lo'')"
      and prev = "[\<lparr>t_id = 1, t_role = User, t_text = ''Hel'', t_timestamp = 1\<rparr>]"]
  by (simp add: extractTranscriptText_def trim_def WhiteSpace_def formatTranscripts_def
      format_item_def role_text_def spec_aggregate_def)

section \<open>Transcript payloads without text\<close>












section \<open>Reconnection\<close>

lemma appendMessage_fields [simp]:
  "status (appendMessage ro t s) = status s"
  "websocketRef (appendMessage ro t s) = websocketRef s"
  "connectionAttemptRef (appendMessage ro t s) = connectionAttemptRef s"
  "resumeHandleRef (appendMessage ro t s) = resumeHandleRef s"
  "resumeHandle (appendMessage ro t s) = resumeHandle s"
  "manualDisconnectRef (appendMessage ro t s) = manualDisconnectRef s"
  "reconnectAttemptsRef (appendMessage ro t s) = reconnectAttemptsRef s"
  "reconnectTimeoutRef (appendMessage ro t s) = reconnectTimeoutRef s"
  "playbackTimeRef (appendMessage ro t s) = playbackTimeRef s"
  "destination (appendMessage ro t s) = destination s"
  "serverInfo (appendMessage ro t s) = serverInfo s"
  "transcripts (appendMessage ro t s) = transcripts s"
  "audioContextRef (appendMessage ro t s) = audioContextRef s"
  "localStorage_resumeHandle (appendMessage ro t s) = localStorage_resumeHandle s"
  by (simp_all add: appendMessage_def)









section \<open>Terminal envelopes\<close>

lemma typed_is_object:
  "typeof_string (getprop (Some d) k) = Some t \<Longrightarrow> \<exists>kvs. d = JObj kvs"
  by (cases d) simp_all

lemma dispatch:
  assumes "typeof_string (getprop (Some d) ''type'') = Some t"
  shows "handleServerMessage r e (Some d) s =
     (if t = ''status'' then handle_status (Some d) s
      else if t = ''audio'' then handle_audio r e (Some d) s
      else if t = ''text'' then handle_text (Some d) s
      else if t = ''transcript'' then handle_transcript e (Some d) s
      else if t = ''monitor'' then handle_monitor r (Some d) s
      else if t = ''recordings'' then handle_recordings (Some d) s
      else if t = ''session_complete'' then handle_session_complete (Some d) s
      else if t = ''session_resumption'' then handle_session_resumption (Some d) s
      else if t = ''context_ack'' then handle_context_ack (Some d) s
      else if t = ''error'' then handle_error (Some d) s
      else if t = ''session_expired'' then handle_session_expired (Some d) s
      else s)"
proof -
  from typed_is_object [OF assms] obtain kvs where d: "d = JObj kvs" by blast
  show ?thesis using assms unfolding d handleServerMessage_def by (simp add: Let_def)
qed

lemma session_complete_fields:
  "manualDisconnectRef (handle_session_complete data s) \<and>
   resumeHandle (handle_session_complete data s) = None \<and>
   resumeHandleRef (handle_session_complete data s) = None \<and>
   reconnectAttemptsRef (handle_session_complete data s) = 0 \<and>
   status (handle_session_complete data s) = Disconnected \<and>
   transcripts (handle_session_complete data s) = transcripts s \<and>
   websocketRef (handle_session_complete data s) =
     (case websocketRef s of
        None \<Rightarrow> None
      | Some ws \<Rightarrow> if readyState ws = OPEN
          then Some (ws\<lparr>readyState := CLOSING, ws_closed := Some (CloseWith 1000 ''session complete'')\<rparr>)
          else Some ws)"
  by (simp add: handle_session_complete_def close_if_open_def ws_close_def Let_def
      split: option.splits)

lemma session_expired_fields:
  "manualDisconnectRef (handle_session_expired data s) \<and>
   resumeHandle (handle_session_expired data s) = None \<and>
   resumeHandleRef (handle_session_expired data s) = None \<and>
   reconnectAttemptsRef (handle_session_expired data s) = 0 \<and>
   status (handle_session_expired data s) = Disconnected \<and>
   transcripts (handle_session_expired data s) = transcripts s \<and>
   websocketRef (handle_session_expired data s) =
     (case websocketRef s of
        None \<Rightarrow> None
      | Some ws \<Rightarrow> if readyState ws = OPEN
          then Some (ws\<lparr>readyState := CLOSING, ws_closed := Some (CloseWith 1000 ''session expired'')\<rparr>)
          else Some ws)"
  by (simp add: handle_session_expired_def close_if_open_def ws_close_def Let_def
      split: option.splits)

lemma run_effects_fields:
  "status (run_effects b s) = status s"
  "manualDisconnectRef (run_effects b s) = manualDisconnectRef s"
  "resumeHandle (run_effects b s) = resumeHandle s"
  "websocketRef (run_effects b s) = websocketRef s"
  "reconnectAttemptsRef (run_effects b s) = reconnectAttemptsRef s"
  "reconnectTimeoutRef (run_effects b s) = reconnectTimeoutRef s"
  "connectionAttemptRef (run_effects b s) = connectionAttemptRef s"
  "serverInfo (run_effects b s) = serverInfo s"
  "playbackTimeRef (run_effects b s) = playbackTimeRef s"
  "destination (run_effects b s) = destination s"
  "audioContextRef (run_effects b s) = audioContextRef s"
  by (simp_all add: run_effects_def Let_def)

lemma run_effects_handle_cleared:
  "resumeHandle s = None \<Longrightarrow> resumeHandleRef s = None \<Longrightarrow>
   resumeHandleRef (run_effects b s) = None \<and>
   localStorage_resumeHandle (run_effects b s) =
     (if resumeHandle b = None then localStorage_resumeHandle s else None)"
  by (simp add: run_effects_def Let_def nonempty_def)

lemma onclose_intentional:
  "manualDisconnectRef s \<Longrightarrow>
   status (ws_onclose s) = Disconnected \<and> reconnectTimeoutRef (ws_onclose s) = None \<and>
   websocketRef (ws_onclose s) = None"
  by (simp add: ws_onclose_def cleanupMedia_def stopAudioCapture_def stopVideoCapture_def Let_def)

text \<open>
  C6: an inbound envelope of type \<^verbatim>\<open>session_complete\<close> marks the disconnect as
  intentional, clears the resumption handle (state and ref), closes the open channel with
  code 1000, and leaves the status \<open>Disconnected\<close>; the closure that follows keeps the
  status \<open>Disconnected\<close> and schedules no reconnect.
\<close>

theorem session_complete_terminal:
  assumes "typeof_string (getprop (Some d) ''type'') = Some ''session_complete''"
  shows "manualDisconnectRef (ws_onmessage r e (Some d) s) \<and>
         resumeHandle (ws_onmessage r e (Some d) s) = None \<and>
         resumeHandleRef (ws_onmessage r e (Some d) s) = None \<and>
         status (ws_onmessage r e (Some d) s) = Disconnected \<and>
         (\<forall>ws. websocketRef s = Some ws \<and> readyState ws = OPEN \<longrightarrow>
            websocketRef (ws_onmessage r e (Some d) s) =
              Some (ws\<lparr>readyState := CLOSING,
                       ws_closed := Some (CloseWith 1000 ''session complete'')\<rparr>)) \<and>
         status (ws_onclose (ws_onmessage r e (Some d) s)) = Disconnected \<and>
         scheduled_reconnect (ws_onclose (ws_onmessage r e (Some d) s)) = None"
proof -
  let ?h = "handle_session_complete (Some d) s"
  have m: "ws_onmessage r e (Some d) s = run_effects s ?h"
    by (simp add: ws_onmessage_def dispatch [OF assms])
  note f = session_complete_fields [of "Some d" s]
  have 1: "manualDisconnectRef (run_effects s ?h)" "resumeHandle (run_effects s ?h) = None"
    "status (run_effects s ?h) = Disconnected"
    using f by (simp_all add: run_effects_fields)
  have 2: "resumeHandleRef (run_effects s ?h) = None"
    using f run_effects_handle_cleared [of ?h s] by simp
  have 3: "\<forall>ws. websocketRef s = Some ws \<and> readyState ws = OPEN \<longrightarrow>
            websocketRef (run_effects s ?h) =
              Some (ws\<lparr>readyState := CLOSING,
                       ws_closed := Some (CloseWith 1000 ''session complete'')\<rparr>)"
    using f by (simp add: run_effects_fields)
  from onclose_intentional [OF 1(1)]
  have 4: "status (ws_onclose (run_effects s ?h)) = Disconnected"
    "scheduled_reconnect (ws_onclose (run_effects s ?h)) = None"
    by (simp_all add: scheduled_reconnect_def)
  from 1 2 3 4 show ?thesis unfolding m by blast
qed

theorem session_complete_terminal_witness:
  "typeof_string (getprop (Some (JObj [(''type'', JStr ''session_complete'')])) ''type'') =
     Some ''session_complete'' \<and>
   websocketRef live_session = Some live_socket \<and> readyState live_socket = OPEN \<and>
   resumeHandle live_session = Some ''h'' \<and>
   resumeHandle (ws_onmessage example_render example_env
      (Some (JObj [(''type'', JStr ''session_complete'')])) live_session) = None \<and>
   websocketRef (ws_onmessage example_render example_env
      (Some (JObj [(''type'', JStr ''session_complete'')])) live_session) =
     Some (live_socket\<lparr>readyState := CLOSING,
                        ws_closed := Some (CloseWith 1000 ''session complete'')\<rparr>) \<and>
   scheduled_reconnect (ws_onclose (ws_onmessage example_render example_env
      (Some (JObj [(''type'', JStr ''session_complete'')])) live_session)) = None"
proof -
  have h: "typeof_string (getprop (Some (JObj [(''type'', JStr ''session_complete'')])) ''type'') =
     Some ''session_complete''" by simp
  have o: "readyState live_socket = OPEN" by (simp add: live_socket_def)
  from session_complete_terminal [OF h, of example_render example_env live_session]
    h o live_session_fields(1,3)
  show ?thesis by blast
qed

text \<open>
  C3: an inbound envelope of type \<^verbatim>\<open>session_expired\<close> clears the resumption handle
  (state and ref), marks the disconnect as intentional, closes the open channel, and sets
  the status to \<open>Disconnected\<close>.
\<close>

theorem session_expired_terminal:
  assumes "typeof_string (getprop (Some d) ''type'') = Some ''session_expired''"
  shows "resumeHandle (ws_onmessage r e (Some d) s) = None \<and>
         resumeHandleRef (ws_onmessage r e (Some d) s) = None \<and>
         manualDisconnectRef (ws_onmessage r e (Some d) s) \<and>
         (\<forall>ws. websocketRef s = Some ws \<and> readyState ws = OPEN \<longrightarrow>
            websocketRef (ws_onmessage r e (Some d) s) =
              Some (ws\<lparr>readyState := CLOSING,
                       ws_closed := Some (CloseWith 1000 ''session expired'')\<rparr>)) \<and>
         status (ws_onmessage r e (Some d) s) = Disconnected"
proof -
  let ?h = "handle_session_expired (Some d) s"
  have m: "ws_onmessage r e (Some d) s = run_effects s ?h"
    by (simp add: ws_onmessage_def dispatch [OF assms])
  note f = session_expired_fields [of "Some d" s]
  have 1: "manualDisconnectRef (run_effects s ?h)" "resumeHandle (run_effects s ?h) = None"
    "status (run_effects s ?h) = Disconnected"
    using f by (simp_all add: run_effects_fields)
  have 2: "resumeHandleRef (run_effects s ?h) = None"
    using f run_effects_handle_cleared [of ?h s] by simp
  have 3: "\<forall>ws. websocketRef s = Some ws \<and> readyState ws = OPEN \<longrightarrow>
            websocketRef (run_effects s ?h) =
              Some (ws\<lparr>readyState := CLOSING,
                       ws_closed := Some (CloseWith 1000 ''session expired'')\<rparr>)"
    using f by (simp add: run_effects_fields)
  from 1 2 3 show ?thesis unfolding m by blast
qed

theorem session_expired_terminal_witness:
  "typeof_string (getprop (Some (JObj [(''type'', JStr ''session_expired'')])) ''type'') =
     Some ''session_expired'' \<and>
   websocketRef live_session = Some live_socket \<and> readyState live_socket = OPEN \<and>
   resumeHandle live_session = Some ''h'' \<and> status live_session = Connected \<and>
   resumeHandle (ws_onmessage example_render example_env
      (Some (JObj [(''type'', JStr ''session_expired'')])) live_session) = None \<and>
   websocketRef (ws_onmessage example_render example_env
      (Some (JObj [(''type'', JStr ''session_expired'')])) live_session) =
     Some (live_socket\<lparr>readyState := CLOSING,
                        ws_closed := Some (CloseWith 1000 ''session expired'')\<rparr>) \<and>
   status (ws_onmessage example_render example_env
      (Some (JObj [(''type'', JStr ''session_expired'')])) live_session) = Disconnected"
proof -
  have h: "typeof_string (getprop (Some (JObj [(''type'', JStr ''session_expired'')])) ''type'') =
     Some ''session_expired''" by simp
  have o: "readyState live_socket = OPEN" by (simp add: live_socket_def)
  from session_expired_terminal [OF h, of example_render example_env live_session]
    h o live_session_fields(1,2,3)
  show ?thesis by blast
qed

section \<open>Inbound audio\<close>

lemma ensure_fields:
  "playbackTimeRef (ensureAudioContext e s) = playbackTimeRef s"
  "destination (ensureAudioContext e s) = destination s"
  "status (ensureAudioContext e s) = status s"
  "websocketRef (ensureAudioContext e s) = websocketRef s"
  "transcripts (ensureAudioContext e s) = transcripts s"
  "resumeHandle (ensureAudioContext e s) = resumeHandle s"
  "resumeHandleRef (ensureAudioContext e s) = resumeHandleRef s"
  "reconnectAttemptsRef (ensureAudioContext e s) = reconnectAttemptsRef s"
  "reconnectTimeoutRef (ensureAudioContext e s) = reconnectTimeoutRef s"
  "manualDisconnectRef (ensureAudioContext e s) = manualDisconnectRef s"
  "connectionAttemptRef (ensureAudioContext e s) = connectionAttemptRef s"
  "serverInfo (ensureAudioContext e s) = serverInfo s"
  by (simp_all add: ensureAudioContext_def split: option.splits)

lemma ensure_running:
  "audioContextRef s = Some ctx \<Longrightarrow> ctx_state ctx = Running \<Longrightarrow> ensureAudioContext e s = s"
  by (simp add: ensureAudioContext_def)

lemma run_effects_same:
  "transcripts s' = transcripts s \<Longrightarrow> resumeHandle s' = resumeHandle s \<Longrightarrow> run_effects s s' = s'"
  by (simp add: run_effects_def)

lemma play_odd:
  "base64ToUint8Array b = Some bytes \<Longrightarrow> odd (length bytes) \<Longrightarrow>
   playAssistantAudio r e b rate s = ensureAudioContext e s"
  by (simp add: playAssistantAudio_def Let_def odd_iff_mod_2_eq_one split: option.splits)

text \<open>
  C8: an inbound \<^verbatim>\<open>audio\<close> envelope whose decoded byte length is odd is dropped: the
  playback cursor, the sources scheduled on the output device and the connection status
  are unchanged. All the call does is make sure an audio context exists and runs, so with
  a running context the whole state is unchanged.
\<close>

theorem odd_audio_dropped:
  assumes "typeof_string (getprop (Some d) ''type'') = Some ''audio''"
    and "typeof_string (getprop (Some d) ''data'') = Some b"
    and "base64ToUint8Array b = Some bytes"
    and "odd (length bytes)"
  shows "ws_onmessage r e (Some d) s = ensureAudioContext e s \<and>
         playbackTimeRef (ws_onmessage r e (Some d) s) = playbackTimeRef s \<and>
         destination (ws_onmessage r e (Some d) s) = destination s \<and>
         status (ws_onmessage r e (Some d) s) = status s \<and>
         (\<forall>ctx. audioContextRef s = Some ctx \<and> ctx_state ctx = Running \<longrightarrow>
            ws_onmessage r e (Some d) s = s)"
proof -
  have h: "handleServerMessage r e (Some d) s = ensureAudioContext e s"
    using assms by (simp add: dispatch [OF assms(1)] handle_audio_def play_odd)
  have m: "ws_onmessage r e (Some d) s = ensureAudioContext e s"
    unfolding ws_onmessage_def h by (rule run_effects_same) (simp_all add: ensure_fields)
  show ?thesis unfolding m by (auto simp add: ensure_fields ensure_running)
qed

theorem odd_audio_dropped_witness:
  "typeof_string (getprop (Some (JObj [(''type'', JStr ''audio''), (''data'', JStr ''AAAA'')]))
      ''type'') = Some ''audio'' \<and>
   typeof_string (getprop (Some (JObj [(''type'', JStr ''audio''), (''data'', JStr ''AAAA'')]))
      ''data'') = Some ''AAAA'' \<and>
   base64ToUint8Array ''AAAA'' = Some [0, 0, 0] \<and> odd (length [0, 0, 0 :: 8 word]) \<and>
   audioContextRef live_session = Some \<lparr>ctx_sampleRate = 48000, ctx_state = Running\<rparr> \<and>
   ws_onmessage example_render example_env
     (Some (JObj [(''type'', JStr ''audio''), (''data'', JStr ''AAAA'')])) live_session =
     live_session"
proof -
  have 1: "typeof_string (getprop (Some (JObj [(''type'', JStr ''audio''),
      (''data'', JStr ''AAAA'')])) ''type'') = Some ''audio''" by simp
  have 2: "typeof_string (getprop (Some (JObj [(''type'', JStr ''audio''),
      (''data'', JStr ''AAAA'')])) ''data'') = Some ''AAAA''" by simp
  have 3: "base64ToUint8Array ''AAAA'' = Some [0, 0, 0]"
    by (simp add: base64ToUint8Array_def atob_def strip_padding_def ascii_whitespace_def
        base64_value_def)
  have 4: "odd (length [0, 0, 0 :: 8 word])" by simp
  have 5: "ctx_state \<lparr>ctx_sampleRate = 48000, ctx_state = Running\<rparr> = Running" by simp
  from odd_audio_dropped [OF 1 2 3 4, of example_render example_env live_session]
    live_session_fields(10) 5
  have "ws_onmessage example_render example_env
     (Some (JObj [(''type'', JStr ''audio''), (''data'', JStr ''AAAA'')])) live_session =
     live_session" by blast
  with 1 2 3 4 live_session_fields(10) show ?thesis by blast
qed

section \<open>Negotiated rates\<close>

lemma handle_status_serverInfo:
  "serverInfo (handle_status data s) =
     Some \<lparr>sendSampleRate = typeof_number (getprop data ''sendSampleRate''),
           receiveSampleRate = typeof_number (getprop data ''receiveSampleRate'')\<rparr>"
  by (simp add: handle_status_def Let_def split: option.splits)

text \<open>
  A \<^verbatim>\<open>status\<close> envelope replaces the negotiated-rate record as a whole: each rate is
  the envelope's numeric field or undefined, whatever was negotiated before, and the rate
  expressions evaluated on the stored record give the fallbacks.
\<close>

lemma status_replaces_record:
  assumes "typeof_string (getprop (Some d) ''type'') = Some ''status''"
  shows "serverInfo (ws_onmessage r e (Some d) s) =
           Some \<lparr>sendSampleRate = typeof_number (getprop (Some d) ''sendSampleRate''),
                 receiveSampleRate = typeof_number (getprop (Some d) ''receiveSampleRate'')\<rparr> \<and>
         (typeof_number (getprop (Some d) ''sendSampleRate'') = None \<longrightarrow>
            desiredRate (serverInfo (ws_onmessage r e (Some d) s)) = 16000) \<and>
         (typeof_number (getprop (Some d) ''receiveSampleRate'') = None \<longrightarrow>
            targetSampleRate None (serverInfo (ws_onmessage r e (Some d) s)) ctx = ctx_sampleRate ctx)"
proof -
  have "serverInfo (ws_onmessage r e (Some d) s) = serverInfo (handle_status (Some d) s)"
    by (simp add: ws_onmessage_def dispatch [OF assms] run_effects_fields)
  then show ?thesis
    by (simp add: handle_status_serverInfo desiredRate_def targetSampleRate_def
        FALLBACK_SEND_SAMPLE_RATE_def)
qed

lemma first_session_ended_fields:
  "serverInfo first_session_ended = Some negotiated"
  "websocketRef first_session_ended = None"
  "\<not> connectionAttemptRef first_session_ended"
  "audioContextRef first_session_ended = None"
  "playbackTimeRef first_session_ended = 0"
  "destination first_session_ended = []"
  "status first_session_ended = Disconnected"
  by (simp_all add: first_session_ended_def ws_onmessage_def handleServerMessage_def
      handle_status_def run_effects_def disconnect_def ws_onclose_def cleanupMedia_def
      stopAudioCapture_def stopVideoCapture_def ws_close_def ws_send_def negotiated_def
      live_session_fields live_socket_def Let_def)

lemma second_session_fields:
  "serverInfo second_session = Some negotiated"
  "audioContextRef second_session = Some \<lparr>ctx_sampleRate = 48000, ctx_state = Running\<rparr>"
  "playbackTimeRef second_session = 0"
  "destination second_session = []"
  "status second_session = Connected"
  by (simp_all add: second_session_def ws_onopen_def connect_def first_session_ended_fields
      second_render_def example_render_def example_env_def trim_def startAudioCapture_def
      ensureAudioContext_def Let_def)

lemma play_at_render_rate:
  assumes "audioContextRef s = Some \<lparr>ctx_sampleRate = 48000, ctx_state = Running\<rparr>"
    and "playbackTimeRef s = 0" and "destination s = []"
    and "r_serverInfo r = Some negotiated" and "currentTime e = 1"
  shows "destination (playAssistantAudio r e ''AAAAAA=='' None s) =
           [\<lparr>src_startAt = 21 / 20, src_samples = [0, 0], src_sampleRate = 24000\<rparr>]"
proof -
  have b: "base64ToUint8Array ''AAAAAA=='' = Some [0, 0, 0, 0]"
    by (simp add: base64ToUint8Array_def atob_def strip_padding_def ascii_whitespace_def
        base64_value_def)
  show ?thesis using assms
    by (simp add: playAssistantAudio_def b ensureAudioContext_def targetSampleRate_def
        negotiated_def int16ToFloat32_def Let_def)
qed

text \<open>
  C10: after a \<^verbatim>\<open>status\<close> envelope that carries no rates, capture falls back to 16000 Hz
  and playback to the output device's rate. The code stores the record with both rates
  undefined, but the callbacks of the running connection read the record of the render
  that connected: in the second connection, on a 48000 Hz device, the capture rate stays
  24000 and the next frame without a rate of its own is scheduled in a 24000 Hz buffer.
\<close>

theorem stale_rates_after_status:
  "r_serverInfo second_render = serverInfo first_session_ended \<and>
   serverInfo second_session = Some \<lparr>sendSampleRate = Some 24000, receiveSampleRate = Some 24000\<rparr> \<and>
   serverInfo (ws_onmessage second_render example_env (Some (JObj [(''type'', JStr ''status'')]))
      second_session) = Some \<lparr>sendSampleRate = None, receiveSampleRate = None\<rparr> \<and>
   desiredRate (r_serverInfo second_render) = 24000 \<and>
   map src_sampleRate (destination
     (ws_onmessage second_render example_env
        (Some (JObj [(''type'', JStr ''audio''), (''data'', JStr ''AAAAAA=='')]))
        (ws_onmessage second_render example_env (Some (JObj [(''type'', JStr ''status'')]))
           second_session))) = [24000] \<and>
   map_option ctx_sampleRate (audioContextRef
     (ws_onmessage second_render example_env (Some (JObj [(''type'', JStr ''status'')]))
        second_session)) = Some 48000"
proof -
  let ?st = "JObj [(''type'', JStr ''status'')]"
  let ?au = "JObj [(''type'', JStr ''audio''), (''data'', JStr ''AAAAAA=='')]"
  let ?s1 = "ws_onmessage second_render example_env (Some ?st) second_session"
  have t: "typeof_string (getprop (Some ?st) ''type'') = Some ''status''" by simp
  have ta: "typeof_string (getprop (Some ?au) ''type'') = Some ''audio''" by simp
  have 1: "r_serverInfo second_render = serverInfo first_session_ended"
    by (simp add: second_render_def first_session_ended_fields)
  have 2: "serverInfo second_session =
      Some \<lparr>sendSampleRate = Some 24000, receiveSampleRate = Some 24000\<rparr>"
    by (simp add: second_session_fields negotiated_def)
  have 3: "serverInfo ?s1 = Some \<lparr>sendSampleRate = None, receiveSampleRate = None\<rparr>"
    using status_replaces_record [OF t, of second_render example_env second_session] by simp
  have 4: "desiredRate (r_serverInfo second_render) = 24000"
    by (simp add: second_render_def desiredRate_def negotiated_def)
  have h: "handleServerMessage second_render example_env (Some ?st) second_session =
      handle_status (Some ?st) second_session"
    by (simp add: dispatch [OF t])
  have f: "audioContextRef ?s1 = Some \<lparr>ctx_sampleRate = 48000, ctx_state = Running\<rparr>"
    "playbackTimeRef ?s1 = 0" "destination ?s1 = []"
    by (simp_all add: ws_onmessage_def h run_effects_fields handle_status_def Let_def
        second_session_fields split: option.splits)
  have "destination (ws_onmessage second_render example_env (Some ?au) ?s1) =
      destination (playAssistantAudio second_render example_env ''AAAAAA=='' None ?s1)"
    by (simp add: ws_onmessage_def dispatch [OF ta] handle_audio_def run_effects_fields)
  also have "\<dots> = [\<lparr>src_startAt = 21 / 20, src_samples = [0, 0], src_sampleRate = 24000\<rparr>]"
    by (rule play_at_render_rate [OF f])
      (simp_all add: second_render_def example_env_def)
  finally have 5: "map src_sampleRate (destination
      (ws_onmessage second_render example_env (Some ?au) ?s1)) = [24000]" by simp
  have 6: "map_option ctx_sampleRate (audioContextRef ?s1) = Some 48000" by (simp add: f)
  from 1 2 3 4 5 6 show ?thesis by blast
qed

section \<open>Playback scheduling\<close>

lemma play_result:
  "playAssistantAudio r e b rate s = ensureAudioContext e s \<or>
   (\<exists>f. playAssistantAudio r e b rate s =
          (ensureAudioContext e s)\<lparr>destination := destination s @ [f],
            playbackTimeRef := src_startAt f + src_duration f\<rparr> \<and>
        src_startAt f = startAt_for (currentTime e) (playbackTimeRef s) \<and>
        0 < src_duration f)"
proof -
  let ?s1 = "ensureAudioContext e s"
  show ?thesis
  proof (cases "audioContextRef ?s1")
    case None
    then show ?thesis by (simp add: playAssistantAudio_def Let_def)
  next
    case (Some ctx)
    show ?thesis
    proof (cases "base64ToUint8Array b")
      case None
      then show ?thesis using Some by (simp add: playAssistantAudio_def Let_def)
    next
      case (Some bytes)
      let ?target = "targetSampleRate rate (r_serverInfo r) ctx"
      let ?floats = "int16ToFloat32 (Int16Array bytes)"
      show ?thesis
      proof (cases "length bytes mod 2 \<noteq> 0 \<or> length (Int16Array bytes) = 0 \<or> ?target \<le> 0")
        case True
        then show ?thesis using Some \<open>audioContextRef ?s1 = Some ctx\<close>
          by (auto simp add: playAssistantAudio_def Let_def)
      next
        case False
        let ?f = "\<lparr>src_startAt = startAt_for (currentTime e) (playbackTimeRef s),
                    src_samples = ?floats, src_sampleRate = ?target\<rparr>"
        have d: "0 < src_duration ?f"
          using False by (simp add: src_duration_def int16ToFloat32_def)
        have "playAssistantAudio r e b rate s =
                ?s1\<lparr>destination := destination s @ [?f],
                     playbackTimeRef := src_startAt ?f + src_duration ?f\<rparr>"
          using False Some \<open>audioContextRef ?s1 = Some ctx\<close>
          by (simp add: playAssistantAudio_def Let_def startAt_for_def ensure_fields)
        with d show ?thesis by (intro disjI2 exI [of _ ?f]) simp
      qed
    qed
  qed
qed

lemma play_scheduled:
  assumes "destination (playAssistantAudio r e b rate s) = destination s @ [f]"
  shows "src_startAt f = startAt_for (currentTime e) (playbackTimeRef s) \<and>
         playbackTimeRef (playAssistantAudio r e b rate s) = src_startAt f + src_duration f \<and>
         0 < src_duration f"
  using play_result [of r e b rate s] assms by (auto simp add: ensure_fields)

text \<open>
  C4: for two frames scheduled one after the other, at clock readings that are arbitrary
  but for the first being non-negative, the first starts at the maximum of the clock
  reading plus the 0.05 s margin and the cursor, the cursor becomes its start plus its
  duration, the second starts no earlier than that, and the cursor never decreases.
\<close>

theorem playback_no_overlap:
  assumes "0 \<le> currentTime e1"
    and "destination (playAssistantAudio r1 e1 b1 rate1 s) = destination s @ [f1]"
    and "destination (playAssistantAudio r2 e2 b2 rate2 (playAssistantAudio r1 e1 b1 rate1 s)) =
           destination s @ [f1, f2]"
  shows "src_startAt f1 = max (currentTime e1 + 0.05)
           (if playbackTimeRef s = 0 then currentTime e1 + 0.05 else playbackTimeRef s) \<and>
         playbackTimeRef (playAssistantAudio r1 e1 b1 rate1 s) = src_startAt f1 + src_duration f1 \<and>
         src_startAt f2 = max (currentTime e2 + 0.05) (src_startAt f1 + src_duration f1) \<and>
         src_startAt f1 + src_duration f1 \<le> src_startAt f2 \<and>
         playbackTimeRef s \<le> playbackTimeRef (playAssistantAudio r1 e1 b1 rate1 s) \<and>
         playbackTimeRef (playAssistantAudio r1 e1 b1 rate1 s) \<le>
           playbackTimeRef (playAssistantAudio r2 e2 b2 rate2 (playAssistantAudio r1 e1 b1 rate1 s))"
proof -
  let ?s1 = "playAssistantAudio r1 e1 b1 rate1 s"
  let ?s2 = "playAssistantAudio r2 e2 b2 rate2 ?s1"
  note a = play_scheduled [OF assms(2)]
  have "destination ?s2 = destination ?s1 @ [f2]" using assms(2,3) by simp
  note b = play_scheduled [OF this]
  have s1: "src_startAt f1 = startAt_for (currentTime e1) (playbackTimeRef s)"
    and c1: "playbackTimeRef ?s1 = src_startAt f1 + src_duration f1"
    and d1: "0 < src_duration f1" using a by simp_all
  have s2: "src_startAt f2 = startAt_for (currentTime e2) (playbackTimeRef ?s1)"
    and c2: "playbackTimeRef ?s2 = src_startAt f2 + src_duration f2"
    and d2: "0 < src_duration f2" using b by simp_all
  have p1: "0 < src_startAt f1" using assms(1) unfolding s1 startAt_for_def by simp
  have nz: "playbackTimeRef ?s1 \<noteq> 0" using p1 d1 c1 by simp
  have 3: "src_startAt f2 = max (currentTime e2 + 0.05) (src_startAt f1 + src_duration f1)"
    using nz unfolding s2 startAt_for_def c1 by simp
  have 5: "playbackTimeRef s \<le> playbackTimeRef ?s1"
    using p1 d1 unfolding c1 s1 startAt_for_def by (simp split: if_splits)
  have 6: "playbackTimeRef ?s1 \<le> playbackTimeRef ?s2"
    using d2 3 unfolding c2 c1 by simp
  from s1 c1 3 5 6 show ?thesis unfolding startAt_for_def by simp
qed

theorem playback_no_overlap_witness:
  "0 \<le> currentTime example_env \<and>
   destination (playAssistantAudio example_render example_env ''AAAAAA=='' (Some 24000)
      live_session) =
     destination live_session @
       [\<lparr>src_startAt = 21 / 20, src_samples = [0, 0], src_sampleRate = 24000\<rparr>] \<and>
   destination (playAssistantAudio example_render example_env ''AAAAAA=='' (Some 24000)
      (playAssistantAudio example_render example_env ''AAAAAA=='' (Some 24000) live_session)) =
     destination live_session @
       [\<lparr>src_startAt = 21 / 20, src_samples = [0, 0], src_sampleRate = 24000\<rparr>,
        \<lparr>src_startAt = 21 / 20 + 1 / 12000, src_samples = [0, 0], src_sampleRate = 24000\<rparr>] \<and>
   src_startAt \<lparr>src_startAt = 21 / 20, src_samples = [0, 0], src_sampleRate = 24000\<rparr> +
     src_duration \<lparr>src_startAt = 21 / 20, src_samples = [0, 0], src_sampleRate = 24000\<rparr> \<le>
     src_startAt \<lparr>src_startAt = 21 / 20 + 1 / 12000, src_samples = [0, 0],
                   src_sampleRate = 24000\<rparr>"
proof -
  have b: "base64ToUint8Array ''AAAAAA=='' = Some [0, 0, 0, 0]"
    by (simp add: base64ToUint8Array_def atob_def strip_padding_def ascii_whitespace_def
        base64_value_def)
  have 0: "0 \<le> currentTime example_env" by (simp add: example_env_def)
  have s1: "playAssistantAudio example_render example_env ''AAAAAA=='' (Some 24000) live_session =
      live_session\<lparr>destination :=
          [\<lparr>src_startAt = 21 / 20, src_samples = [0, 0], src_sampleRate = 24000\<rparr>],
        playbackTimeRef := 21 / 20 + 1 / 12000\<rparr>"
    by (simp add: playAssistantAudio_def b ensureAudioContext_def live_session_fields
        targetSampleRate_def int16ToFloat32_def example_env_def src_duration_def Let_def)
  have 1: "destination (playAssistantAudio example_render example_env ''AAAAAA=='' (Some 24000)
      live_session) =
     destination live_session @
       [\<lparr>src_startAt = 21 / 20, src_samples = [0, 0], src_sampleRate = 24000\<rparr>]"
    by (simp add: s1 live_session_fields)
  have 2: "destination (playAssistantAudio example_render example_env ''AAAAAA=='' (Some 24000)
      (playAssistantAudio example_render example_env ''AAAAAA=='' (Some 24000) live_session)) =
     destination live_session @
       [\<lparr>src_startAt = 21 / 20, src_samples = [0, 0], src_sampleRate = 24000\<rparr>,
        \<lparr>src_startAt = 21 / 20 + 1 / 12000, src_samples = [0, 0], src_sampleRate = 24000\<rparr>]"
    unfolding s1
    by (simp add: playAssistantAudio_def b ensureAudioContext_def live_session_fields
        targetSampleRate_def int16ToFloat32_def example_env_def src_duration_def Let_def)
  from playback_no_overlap [OF 0 1 2] 0 1 2 show ?thesis by blast
qed

section \<open>Connecting twice\<close>



lemma close_if_open_channel:
  "websocketRef s \<noteq> None \<Longrightarrow> websocketRef (close_if_open args s) \<noteq> None"
  by (auto simp add: close_if_open_def split: option.splits)










section \<open>From the dispatcher to the displayed transcript\<close>

lemma play_transcripts:
  "transcripts (playAssistantAudio r e b rate s) = transcripts s \<and>
   transcriptsFormatted (playAssistantAudio r e b rate s) = transcriptsFormatted s"
  using play_result [of r e b rate s]
  by (auto simp add: ensureAudioContext_def split: option.splits)

text \<open>
  A \<^verbatim>\<open>transcript\<close> envelope with a string role hands its payload to \<open>appendTranscript\<close>,
  and handling a message keeps the displayed list equal to \<open>formatTranscripts\<close> of the
  list that \<open>appendTranscript\<close> maintains.
\<close>

lemma transcript_envelope:
  assumes "typeof_string (getprop (Some d) ''type'') = Some ''transcript''"
    and "typeof_string (getprop (Some d) ''role'') = Some x"
  shows "transcripts (ws_onmessage r e (Some d) s) =
           appendTranscript (Date_now e) (if x = ''user'' then User else Assistant)
             (getprop (Some d) ''payload'') (transcripts s)"
  using assms
  by (simp add: ws_onmessage_def dispatch [OF assms(1)] handle_transcript_def run_effects_def Let_def)

lemma handlers_keep_transcripts:
  "transcripts (handle_status data s) = transcripts s \<and> transcriptsFormatted (handle_status data s) = transcriptsFormatted s"
  "transcripts (handle_audio r e data s) = transcripts s \<and> transcriptsFormatted (handle_audio r e data s) = transcriptsFormatted s"
  "transcripts (handle_text data s) = transcripts s \<and> transcriptsFormatted (handle_text data s) = transcriptsFormatted s"
  "transcriptsFormatted (handle_transcript e data s) = transcriptsFormatted s"
  "transcripts (handle_monitor r data s) = transcripts s \<and> transcriptsFormatted (handle_monitor r data s) = transcriptsFormatted s"
  "transcripts (handle_recordings data s) = transcripts s \<and> transcriptsFormatted (handle_recordings data s) = transcriptsFormatted s"
  "transcripts (handle_session_complete data s) = transcripts s \<and> transcriptsFormatted (handle_session_complete data s) = transcriptsFormatted s"
  "transcripts (handle_session_resumption data s) = transcripts s \<and> transcriptsFormatted (handle_session_resumption data s) = transcriptsFormatted s"
  "transcripts (handle_context_ack data s) = transcripts s \<and> transcriptsFormatted (handle_context_ack data s) = transcriptsFormatted s"
  "transcripts (handle_error data s) = transcripts s \<and> transcriptsFormatted (handle_error data s) = transcriptsFormatted s"
  "transcripts (handle_session_expired data s) = transcripts s \<and> transcriptsFormatted (handle_session_expired data s) = transcriptsFormatted s"
  by (simp_all add: handle_status_def handle_audio_def handle_text_def handle_transcript_def
      handle_monitor_def handle_recordings_def handle_session_complete_def
      handle_session_resumption_def handle_context_ack_def handle_error_def
      handle_session_expired_def close_if_open_def appendMessage_def play_transcripts Let_def
      split: option.splits)

lemma run_effects_shown:
  "transcriptsFormatted s' = transcriptsFormatted s \<Longrightarrow> shown s \<Longrightarrow> shown (run_effects s s')"
  by (auto simp add: run_effects_def shown_def Let_def)

lemma handleServerMessage_formatted:
  "transcriptsFormatted (handleServerMessage r e parsed s) = transcriptsFormatted s"
proof (cases parsed)
  case None
  then show ?thesis by (simp add: handleServerMessage_def)
next
  case (Some d)
  show ?thesis
  proof (cases "typeof_string (getprop (Some d) ''type'')")
    case None
    then show ?thesis using Some by (cases d) (simp_all add: handleServerMessage_def Let_def)
  next
    case (Some t)
    show ?thesis unfolding \<open>parsed = Some d\<close> dispatch [OF Some]
      by (simp add: handlers_keep_transcripts)
  qed
qed

lemma shown_onmessage: "shown s \<Longrightarrow> shown (ws_onmessage r e parsed s)"
  by (simp add: ws_onmessage_def run_effects_shown handleServerMessage_formatted)

end
